theory Spec2Isabelle
  imports Main "HOL-Library.Sublist"
begin

section \<open>Python strings\<close>

text \<open>
  A Python \<open>str\<close> is a sequence of Unicode code points, so it is modelled as a list of
  code points and not as a list of bytes. String literals of the source are written
  with \<open>lit\<close>; the literals of the modelled code are ASCII except for the degree sign
  (code point 176) in \<open>get_weather\<close>.
\<close>

type_synonym codepoint = nat
type_synonym str = "codepoint list"

definition lit :: "string \<Rightarrow> str" where
  "lit s = map of_char s"

text \<open>
  \<open>str.replace(old, new)\<close>: every non-overlapping occurrence of \<open>old\<close>, scanning from
  the left. With an empty \<open>old\<close> Python puts \<open>new\<close> before every code point and at the
  end.
\<close>

function replace :: "str \<Rightarrow> str \<Rightarrow> str \<Rightarrow> str" where
  "replace old new [] = (if old = [] then new else [])"
| "replace old new (c # cs) =
     (if old = [] then new @ c # replace old new cs
      else if prefix old (c # cs) then new @ replace old new (drop (length old) (c # cs))
      else c # replace old new cs)"
  by pat_completeness auto
termination
  by (relation "measure (\<lambda>(old, new, s). length s)") (auto simp: Suc_le_eq)

text \<open>
  \<open>str.title()\<close> walks the string once: a code point that follows a cased code point is
  lower-cased, any other is title-cased, and the flag for the next step is whether the
  code point just read is cased. The case tables belong to the Python runtime (its
  Unicode database), so they are a parameter of the model; the lower-case mapping gets
  the string and the index as well, because Python's depends on the context for one
  code point (capital sigma). \<open>ascii_tables\<close> is their restriction to ASCII, used to
  evaluate the model on concrete identifiers.
\<close>

record unicode_tables =
  is_cased :: "codepoint \<Rightarrow> bool"
  to_title :: "codepoint \<Rightarrow> str"
  to_lower :: "str \<Rightarrow> nat \<Rightarrow> codepoint \<Rightarrow> str"

fun do_title :: "unicode_tables \<Rightarrow> str \<Rightarrow> nat \<Rightarrow> bool \<Rightarrow> str \<Rightarrow> str" where
  "do_title db s i previous_is_cased [] = []"
| "do_title db s i previous_is_cased (c # cs) =
     (if previous_is_cased then to_lower db s i c else to_title db c)
     @ do_title db s (Suc i) (is_cased db c) cs"

definition title :: "unicode_tables \<Rightarrow> str \<Rightarrow> str" where
  "title db s = do_title db s 0 False s"

definition ascii_tables :: unicode_tables where
  "ascii_tables =
     \<lparr> is_cased = (\<lambda>c. (65 \<le> c \<and> c \<le> 90) \<or> (97 \<le> c \<and> c \<le> 122)),
       to_title = (\<lambda>c. [if 97 \<le> c \<and> c \<le> 122 then c - 32 else c]),
       to_lower = (\<lambda>s i c. [if 65 \<le> c \<and> c \<le> 90 then c + 32 else c]) \<rparr>"

text \<open>\<open>sep.join(items)\<close>: the items with \<open>sep\<close> between neighbours.\<close>

fun join :: "str \<Rightarrow> str list \<Rightarrow> str" where
  "join sep [] = []"
| "join sep [x] = x"
| "join sep (x # y # ys) = x @ sep @ join sep (y # ys)"

section \<open>The validation aggregator\<close>

text \<open>
  The handler reads two attributes of each response: \<open>executor_id\<close> and
  \<open>agent_run_response.text\<close>. The workflow context is the external runtime's; the
  handler only calls \<open>send_message\<close> on it, so the context is modelled by the list of
  messages sent through it so far.
\<close>

record agent_run_response =
  "text" :: str

record agent_executor_response =
  executor_id :: str
  agent_run_response :: agent_run_response

record workflow_context =
  sent :: "str list"

text \<open>The exceptions of the model. \<open>ExternalError\<close> stands for any exception raised
  inside the external library.\<close>

datatype py_error = IndexError | NameError | ImportError | ExternalError

definition send_message :: "workflow_context \<Rightarrow> str \<Rightarrow> workflow_context" where
  "send_message ctx message = ctx\<lparr>sent := sent ctx @ [message]\<rparr>"

text \<open>The body of the \<open>for\<close> loop: the entry appended for one response.\<close>

definition format_validation :: "unicode_tables \<Rightarrow> agent_executor_response \<Rightarrow> str" where
  "format_validation db r =
     (let validator_name = title db (replace (lit ''_'') (lit '' '') (executor_id r));
          text = text (agent_run_response r)
      in lit ''**'' @ validator_name @ lit ''**:\<newline>'' @ text)"

fun aggregate_loop ::
  "unicode_tables \<Rightarrow> agent_executor_response list \<Rightarrow> str list \<Rightarrow> str list" where
  "aggregate_loop db [] validations = validations"
| "aggregate_loop db (r # results) validations =
     aggregate_loop db results (validations @ [format_validation db r])"

definition aggregate ::
  "unicode_tables \<Rightarrow> agent_executor_response list \<Rightarrow> workflow_context
     \<Rightarrow> py_error + workflow_context" where
  "aggregate db results ctx =
     (let validations = aggregate_loop db results [];
          combined = join (lit ''\<newline>\<newline>'') validations;
          summary = lit ''=== VALIDATION SUMMARY ===\<newline>\<newline>'' @ combined
                      @ lit ''\<newline>\<newline>''
      in Inr (send_message ctx summary))"






section \<open>The weather tool\<close>

text \<open>
  \<open>random.randint(a, b)\<close> returns some integer \<open>N\<close> with \<open>a \<le> N \<le> b\<close>. The model
  lists every value it can return, and a function that draws random numbers returns
  the list of its possible results.
\<close>

definition randint :: "int \<Rightarrow> int \<Rightarrow> int list" where
  "randint a b = [a..b]"

text \<open>Indexing a Python list: a negative index counts from the end, an index out of
  range raises \<open>IndexError\<close>.\<close>

definition getitem :: "'a list \<Rightarrow> int \<Rightarrow> py_error + 'a" where
  "getitem xs i =
     (let j = (if i < 0 then i + int (length xs) else i)
      in if 0 \<le> j \<and> j < int (length xs) then Inr (xs ! nat j) else Inl IndexError)"

text \<open>\<open>str(n)\<close> for an integer, as an f-string formats it: decimal digits, with a minus
  sign for a negative number.\<close>

fun digits :: "nat \<Rightarrow> str" where
  "digits n = (if n < 10 then [48 + n] else digits (n div 10) @ [48 + n mod 10])"

declare digits.simps [simp del]

definition str_int :: "int \<Rightarrow> str" where
  "str_int n = (if n < 0 then lit ''-'' @ digits (nat (- n)) else digits (nat n))"

definition conditions :: "str list" where
  "conditions = [lit ''sunny'', lit ''cloudy'', lit ''rainy'', lit ''stormy'']"

text \<open>One run of \<open>get_weather\<close>, given the two numbers drawn: \<open>i\<close> by \<open>randint(0, 3)\<close>
  and \<open>n\<close> by \<open>randint(10, 30)\<close>.\<close>

definition get_weather_drawn :: "str \<Rightarrow> int \<Rightarrow> int \<Rightarrow> py_error + str" where
  "get_weather_drawn location i n =
     (case getitem conditions i of
        Inl e \<Rightarrow> Inl e
      | Inr condition \<Rightarrow>
          Inr (lit ''The weather in '' @ location @ lit '' is '' @ condition
                 @ lit '' with a high of '' @ str_int n @ [176] @ lit ''C.''))"

definition get_weather :: "str \<Rightarrow> (py_error + str) list" where
  "get_weather location =
     concat (map (\<lambda>i. map (\<lambda>n. get_weather_drawn location i n) (randint 10 30))
                 (randint 0 3))"

text \<open>
  \<open>get_time\<close> reads the clock and formats the reading with
  \<open>strftime('%Y-%m-%d %H:%M:%S')\<close>: the year in four digits and the other fields in
  two, padded with zeros. The clock is outside the program, so the reading is an
  argument.
\<close>

record datetime =
  year :: nat
  month :: nat
  day :: nat
  hour :: nat
  minute :: nat
  second :: nat

definition zero_padded :: "nat \<Rightarrow> nat \<Rightarrow> str" where
  "zero_padded width n = replicate (width - length (digits n)) 48 @ digits n"

definition strftime :: "datetime \<Rightarrow> str" where
  "strftime t =
     zero_padded 4 (year t) @ lit ''-'' @ zero_padded 2 (month t) @ lit ''-''
       @ zero_padded 2 (day t) @ lit '' '' @ zero_padded 2 (hour t) @ lit '':''
       @ zero_padded 2 (minute t) @ lit '':'' @ zero_padded 2 (second t)"

definition get_time :: "datetime \<Rightarrow> str" where
  "get_time current_time = lit ''The current UTC time is '' @ strftime current_time @ lit ''.''"

section \<open>Module load: objects, bindings and the workflow builder\<close>

text \<open>
  A module is a sequence of statements run once, when it is imported. The objects
  they construct live in a heap and are told apart by their reference, so that "the
  same chat client" is a statement about references. \<open>globals\<close> records every write
  to a module-level name, oldest first; the value of a name is its last write. The
  calls that reach outside the process (logging, the development server) are
  recorded in \<open>trace\<close>.

  The classes \<open>AzureOpenAIChatClient\<close>, \<open>ChatAgent\<close> and \<open>WorkflowBuilder\<close> belong to the
  external library. A constructor call is modelled as the allocation of an object
  holding the arguments the source passes, and a builder method as recording the
  declaration it is given, in call order. Of the arguments of \<open>ChatAgent\<close> the prompt
  text (\<open>instructions\<close>) is left out: it is a literal that nothing in the repository
  reads. Import statements for names of the external library are left out as well.
\<close>

type_synonym ref = nat

datatype source_file = Query_workflow | Query_init | Story_workflow | Weather_agent

record chat_agent =
  name :: str
  description :: str
  chat_client :: ref
  tools :: "ref list"

datatype 'a edge =
    Edge 'a 'a
  | Fan_out_edges 'a "'a list"
  | Fan_in_edges "'a list" 'a

record workflow_builder =
  start_executor :: "ref option"
  edges :: "ref edge list"

datatype obj =
    AzureOpenAIChatClient
  | ChatAgent chat_agent
  | Function string
  | Class string
  | ValidationAggregator str
  | Workflow workflow_builder
  | Names "string list"
  | Module source_file

datatype log_level = INFO

datatype effect =
    Basic_config log_level str
  | Logger_info str
  | Serve "ref list" nat bool
  | Handler_returned workflow_context
  | Tool_returned str

record module_state =
  heap :: "obj list"
  globals :: "((source_file \<times> string) \<times> ref) list"
  trace :: "effect list"

definition fresh :: module_state where
  "fresh = \<lparr> heap = [], globals = [], trace = [] \<rparr>"

type_synonym 'a py = "module_state \<Rightarrow> py_error + ('a \<times> module_state)"

definition py_return :: "'a \<Rightarrow> 'a py" where
  "py_return x s = Inr (x, s)"

definition py_raise :: "py_error \<Rightarrow> 'a py" where
  "py_raise e s = Inl e"

definition py_bind :: "'a py \<Rightarrow> ('a \<Rightarrow> 'b py) \<Rightarrow> 'b py" where
  "py_bind m f s = (case m s of Inl e \<Rightarrow> Inl e | Inr (x, s') \<Rightarrow> f x s')"

text \<open>Argument lists are evaluated left to right; statements run in order and the
  first exception ends the run.\<close>

fun py_list :: "'a py list \<Rightarrow> 'a list py" where
  "py_list [] = py_return []"
| "py_list (m # ms) = py_bind m (\<lambda>x. py_bind (py_list ms) (\<lambda>xs. py_return (x # xs)))"

fun block :: "unit py list \<Rightarrow> unit py" where
  "block [] = py_return ()"
| "block (st # sts) = py_bind st (\<lambda>_. block sts)"

definition alloc :: "obj \<Rightarrow> ref py" where
  "alloc ob s = Inr (length (heap s), s\<lparr>heap := heap s @ [ob]\<rparr>)"

definition lookup :: "module_state \<Rightarrow> source_file \<Rightarrow> string \<Rightarrow> ref option" where
  "lookup s m x = map_of (rev (globals s)) (m, x)"

definition var :: "source_file \<Rightarrow> string \<Rightarrow> ref py" where
  "var m x s = (case lookup s m x of None \<Rightarrow> Inl NameError | Some r \<Rightarrow> Inr (r, s))"

definition store_name :: "source_file \<Rightarrow> string \<Rightarrow> ref \<Rightarrow> unit py" where
  "store_name m x r s = Inr ((), s\<lparr>globals := globals s @ [((m, x), r)]\<rparr>)"

definition assign :: "source_file \<Rightarrow> string \<Rightarrow> ref py \<Rightarrow> unit py" where
  "assign m x e = py_bind e (store_name m x)"

definition emit :: "effect \<Rightarrow> unit py" where
  "emit ef s = Inr ((), s\<lparr>trace := trace s @ [ef]\<rparr>)"

text \<open>\<open>def f(...)\<close> and \<open>class C(...)\<close> bind the name to a new function or class object.\<close>

definition def_function :: "source_file \<Rightarrow> string \<Rightarrow> unit py" where
  "def_function m f = assign m f (alloc (Function f))"

definition def_class :: "source_file \<Rightarrow> string \<Rightarrow> unit py" where
  "def_class m c = assign m c (alloc (Class c))"

definition new_chat_agent :: "str \<Rightarrow> str \<Rightarrow> ref py \<Rightarrow> ref py list \<Rightarrow> ref py" where
  "new_chat_agent nm desc client tls =
     py_bind client (\<lambda>c. py_bind (py_list tls) (\<lambda>ts.
       alloc (ChatAgent \<lparr> name = nm, description = desc, chat_client = c, tools = ts \<rparr>)))"

definition new_validation_aggregator :: "source_file \<Rightarrow> str \<Rightarrow> ref py" where
  "new_validation_aggregator m ident =
     py_bind (var m ''ValidationAggregator'') (\<lambda>_. alloc (ValidationAggregator ident))"

definition WorkflowBuilder :: "workflow_builder py" where
  "WorkflowBuilder = py_return \<lparr> start_executor = None, edges = [] \<rparr>"

definition set_start_executor :: "ref py \<Rightarrow> workflow_builder \<Rightarrow> workflow_builder py" where
  "set_start_executor e b = py_bind e (\<lambda>r. py_return (b\<lparr>start_executor := Some r\<rparr>))"

definition add_edge :: "ref py \<Rightarrow> ref py \<Rightarrow> workflow_builder \<Rightarrow> workflow_builder py" where
  "add_edge src tgt b =
     py_bind src (\<lambda>x. py_bind tgt (\<lambda>y. py_return (b\<lparr>edges := edges b @ [Edge x y]\<rparr>)))"

definition add_fan_out_edges ::
  "ref py \<Rightarrow> ref py list \<Rightarrow> workflow_builder \<Rightarrow> workflow_builder py" where
  "add_fan_out_edges src tgts b =
     py_bind src (\<lambda>x. py_bind (py_list tgts) (\<lambda>ys.
       py_return (b\<lparr>edges := edges b @ [Fan_out_edges x ys]\<rparr>)))"

definition add_fan_in_edges ::
  "ref py list \<Rightarrow> ref py \<Rightarrow> workflow_builder \<Rightarrow> workflow_builder py" where
  "add_fan_in_edges srcs tgt b =
     py_bind (py_list srcs) (\<lambda>xs. py_bind tgt (\<lambda>y.
       py_return (b\<lparr>edges := edges b @ [Fan_in_edges xs y]\<rparr>)))"

definition build :: "workflow_builder \<Rightarrow> ref py" where
  "build b = alloc (Workflow b)"

text \<open>A chain of method calls \<open>b.m1(...).m2(...)\<close>: each call gets the builder the
  call before it returned.\<close>

fun chain :: "'a py \<Rightarrow> ('a \<Rightarrow> 'a py) list \<Rightarrow> 'a py" where
  "chain b [] = b"
| "chain b (call # calls) = chain (py_bind b call) calls"

section \<open>The three modules and the package\<close>

subsection \<open>\<open>story_workflow/workflow.py\<close>\<close>

definition story_workflow_body :: "unit py list" where
  "story_workflow_body =
     (let m = Story_workflow in
      [assign m ''chat_client'' (alloc AzureOpenAIChatClient),
       assign m ''plot_designer''
         (new_chat_agent (lit ''PlotDesigner'')
            (lit ''An agent that creates story plots and structures'')
            (var m ''chat_client'') []),
       assign m ''character_creator''
         (new_chat_agent (lit ''CharacterCreator'')
            (lit ''An agent that develops compelling characters'')
            (var m ''chat_client'') []),
       assign m ''scene_writer''
         (new_chat_agent (lit ''SceneWriter'')
            (lit ''An agent that writes engaging story scenes'')
            (var m ''chat_client'') []),
       assign m ''story_polisher''
         (new_chat_agent (lit ''StoryPolisher'')
            (lit ''An agent that adds final polish and improvements'')
            (var m ''chat_client'') []),
       assign m ''workflow''
         (py_bind
            (chain WorkflowBuilder
               [set_start_executor (var m ''plot_designer''),
                add_edge (var m ''plot_designer'') (var m ''character_creator''),
                add_edge (var m ''character_creator'') (var m ''scene_writer''),
                add_edge (var m ''scene_writer'') (var m ''story_polisher'')])
            build),
       def_function m ''main''])"

definition story_main :: "unit py" where
  "story_main =
     block
       [emit (Basic_config INFO (lit ''%(message)s'')),
        emit (Logger_info (lit ''Starting Interactive Story Writing Workflow'')),
        emit (Logger_info (lit ''Available at: http://localhost:8090'')),
        emit (Logger_info (lit ''Entity ID: workflow_story_writing'')),
        emit (Logger_info (lit ''\<newline>Try prompts like:'')),
        emit (Logger_info (lit ''  - Write a sci-fi story about time travel'')),
        emit (Logger_info (lit ''  - Create a mystery story set in a haunted house'')),
        emit (Logger_info (lit ''  - Make a fantasy story about a dragon rider'')),
        emit (Logger_info (lit ''  - Write a comedy about a chef's cooking disaster'')),
        py_bind (py_list [var Story_workflow ''workflow''])
          (\<lambda>entities. emit (Serve entities 8090 True))]"

subsection \<open>\<open>query_generator_workflow/workflow.py\<close>\<close>

definition query_workflow_body :: "unit py list" where
  "query_workflow_body =
     (let m = Query_workflow in
      [assign m ''chat_client'' (alloc AzureOpenAIChatClient),
       assign m ''schema_parser''
         (new_chat_agent (lit ''SchemaParser'')
            (lit ''Analyzes database schema structure'')
            (var m ''chat_client'') []),
       assign m ''query_generator''
         (new_chat_agent (lit ''QueryGenerator'')
            (lit ''Generates SQL query from schema analysis and description'')
            (var m ''chat_client'') []),
       assign m ''syntax_checker''
         (new_chat_agent (lit ''SyntaxChecker'')
            (lit ''Validates SQL syntax'')
            (var m ''chat_client'') []),
       assign m ''schema_validator''
         (new_chat_agent (lit ''SchemaValidator'')
            (lit ''Validates query matches schema'')
            (var m ''chat_client'') []),
       assign m ''performance_reviewer''
         (new_chat_agent (lit ''PerformanceReviewer'')
            (lit ''Reviews query performance'')
            (var m ''chat_client'') []),
       def_class m ''ValidationAggregator'',
       assign m ''validation_aggregator''
         (new_validation_aggregator m (lit ''validation_aggregator'')),
       assign m ''query_refiner''
         (new_chat_agent (lit ''QueryRefiner'')
            (lit ''Refines query based on validation feedback'')
            (var m ''chat_client'') []),
       assign m ''documentation_generator''
         (new_chat_agent (lit ''FinalSQLOutput'')
            (lit ''Outputs only the final clean SQL query'')
            (var m ''chat_client'') []),
       assign m ''workflow''
         (py_bind
            (chain WorkflowBuilder
               [set_start_executor (var m ''schema_parser''),
                add_edge (var m ''schema_parser'') (var m ''query_generator''),
                add_fan_out_edges (var m ''query_generator'')
                  [var m ''syntax_checker'', var m ''schema_validator'',
                   var m ''performance_reviewer''],
                add_fan_in_edges
                  [var m ''syntax_checker'', var m ''schema_validator'',
                   var m ''performance_reviewer'']
                  (var m ''validation_aggregator''),
                add_edge (var m ''validation_aggregator'') (var m ''query_refiner''),
                add_edge (var m ''query_refiner'') (var m ''documentation_generator'')])
            build),
       def_function m ''main''])"

definition query_main :: "unit py" where
  "query_main =
     block
       [emit (Basic_config INFO (lit ''%(message)s'')),
        emit (Logger_info (lit ''Starting Schema-Based Query Generator Workflow'')),
        emit (Logger_info (lit ''Available at: http://localhost:8090'')),
        emit (Logger_info (lit ''\<newline>Example input:'')),
        emit (Logger_info (lit ''Schema:'')),
        emit (Logger_info
          (lit ''CREATE TABLE users (id INT, name VARCHAR(100), email VARCHAR(100));'')),
        emit (Logger_info
          (lit (''CREATE TABLE orders (id INT, user_id INT, total DECIMAL(10,2), ''
                @ ''created_at TIMESTAMP);''))),
        emit (Logger_info
          (lit (''\<newline>Query: Find all users who placed orders over $100 ''
                @ ''in the last month''))),
        py_bind (py_list [var Query_workflow ''workflow''])
          (\<lambda>entities. emit (Serve entities 8090 True))]"

subsection \<open>\<open>query_generator_workflow/__init__.py\<close>\<close>

text \<open>
  \<open>from .workflow import workflow\<close>, a relative import. When the file is loaded as
  the package, the import system creates the module object of the submodule, runs
  \<open>workflow.py\<close>, and binds the package's name \<open>workflow\<close> to the submodule; the
  statement then binds the same name to the object the submodule's name \<open>workflow\<close>
  refers to. When the file is run as a script there is no parent package, and the
  statement raises \<open>ImportError\<close>.
\<close>

definition import_workflow :: "bool \<Rightarrow> unit py" where
  "import_workflow has_parent_package =
     (if has_parent_package then
        py_bind (alloc (Module Query_workflow)) (\<lambda>submodule.
          block
            [block query_workflow_body,
             store_name Query_init ''workflow'' submodule,
             assign Query_init ''workflow'' (var Query_workflow ''workflow'')])
      else py_raise ImportError)"

definition query_init_body :: "unit py list" where
  "query_init_body =
     [import_workflow True,
      assign Query_init ''__all__'' (alloc (Names [''workflow'']))]"

subsection \<open>\<open>weather_agent/agent.py\<close>\<close>

definition weather_agent_body :: "unit py list" where
  "weather_agent_body =
     (let m = Weather_agent in
      [def_function m ''get_weather'',
       def_function m ''get_time'',
       assign m ''agent''
         (new_chat_agent (lit ''WeatherAgent'')
            (lit ''A helpful agent that provides weather information and current time'')
            (alloc AzureOpenAIChatClient)
            [var m ''get_weather'', var m ''get_time''])])"

subsection \<open>Loading a file, and running it as a script\<close>

fun module_body :: "source_file \<Rightarrow> unit py list" where
  "module_body Query_workflow = query_workflow_body"
| "module_body Query_init = query_init_body"
| "module_body Story_workflow = story_workflow_body"
| "module_body Weather_agent = weather_agent_body"

definition load :: "source_file \<Rightarrow> py_error + module_state" where
  "load f = (case block (module_body f) fresh of Inl e \<Rightarrow> Inl e | Inr (_, s) \<Rightarrow> Inr s)"

text \<open>
  The two workflow modules end with \<open>if __name__ == "__main__": main()\<close>: run as a
  script, such a file is loaded and then calls the function its name \<open>main\<close> refers
  to. The other two files have no such guard; \<open>__init__.py\<close> run as a script has no
  parent package for its relative import.
\<close>

definition call_main :: "source_file \<Rightarrow> unit py \<Rightarrow> unit py" where
  "call_main m body = py_bind (var m ''main'') (\<lambda>_. body)"

fun script :: "source_file \<Rightarrow> unit py list" where
  "script Query_workflow = query_workflow_body @ [call_main Query_workflow query_main]"
| "script Story_workflow = story_workflow_body @ [call_main Story_workflow story_main]"
| "script Query_init =
     [import_workflow False,
      assign Query_init ''__all__'' (alloc (Names [''workflow'']))]"
| "script Weather_agent = weather_agent_body"

definition run :: "source_file \<Rightarrow> py_error + module_state" where
  "run f = (case block (script f) fresh of Inl e \<Rightarrow> Inl e | Inr (_, s) \<Rightarrow> Inr s)"

text \<open>
  After a module is loaded, the code of the repository runs only when one of its
  functions is called: \<open>main\<close>, the handler \<open>aggregate\<close> (by the workflow runtime,
  through the object bound to \<open>validation_aggregator\<close>), and the tools \<open>get_weather\<close>
  and \<open>get_time\<close> (by the agent). A call looks the name up in the module and runs
  the body; what the body hands back to its caller is recorded in the trace. The
  life of the process after the load is a sequence of such calls.
\<close>

datatype event =
    Call_main
  | Call_aggregate unicode_tables "agent_executor_response list" workflow_context
  | Call_get_weather str int int
  | Call_get_time datetime

fun call :: "source_file \<Rightarrow> event \<Rightarrow> unit py" where
  "call f Call_main =
     (case f of
        Query_workflow \<Rightarrow> call_main f query_main
      | Story_workflow \<Rightarrow> call_main f story_main
      | _ \<Rightarrow> py_raise NameError)"
| "call f (Call_aggregate db results ctx) =
     py_bind (var f ''validation_aggregator'') (\<lambda>_.
       case aggregate db results ctx of
         Inl e \<Rightarrow> py_raise e
       | Inr ctx' \<Rightarrow> emit (Handler_returned ctx'))"
| "call f (Call_get_weather location i n) =
     py_bind (var f ''get_weather'') (\<lambda>_.
       case get_weather_drawn location i n of
         Inl e \<Rightarrow> py_raise e
       | Inr weather \<Rightarrow> emit (Tool_returned weather))"
| "call f (Call_get_time current_time) =
     py_bind (var f ''get_time'') (\<lambda>_. emit (Tool_returned (get_time current_time)))"


text \<open>Observations on the state of a loaded module.\<close>

definition agents :: "module_state \<Rightarrow> chat_agent list" where
  "agents s = concat (map (\<lambda>ob. case ob of ChatAgent a \<Rightarrow> [a] | _ \<Rightarrow> []) (heap s))"

definition chat_clients :: "module_state \<Rightarrow> ref list" where
  "chat_clients s = filter (\<lambda>r. heap s ! r = AzureOpenAIChatClient) [0 ..< length (heap s)]"

definition serve_calls :: "module_state \<Rightarrow> effect list" where
  "serve_calls s =
     filter (\<lambda>ef. case ef of Serve _ _ _ \<Rightarrow> True | _ \<Rightarrow> False) (trace s)"

definition deref :: "module_state \<Rightarrow> ref \<Rightarrow> obj option" where
  "deref s r = (if r < length (heap s) then Some (heap s ! r) else None)"

text \<open>The names of module \<open>m\<close> that refer to the object \<open>r\<close>.\<close>

definition bound_to :: "module_state \<Rightarrow> source_file \<Rightarrow> ref \<Rightarrow> string list" where
  "bound_to s m r =
     map (\<lambda>((_, x), _). x) (filter (\<lambda>((m', _), r'). m' = m \<and> r' = r) (globals s))"

text \<open>The graph held by the object that the name \<open>workflow\<close> of module \<open>m\<close> refers
  to, with every executor shown by the names bound to it: the start executor and the
  edge declarations in the order of the calls.\<close>

definition declared_workflow ::
  "module_state \<Rightarrow> source_file \<Rightarrow> (string list option \<times> string list edge list) option" where
  "declared_workflow s m =
     (case lookup s m ''workflow'' of
        None \<Rightarrow> None
      | Some w \<Rightarrow>
          (case deref s w of
             Some (Workflow b) \<Rightarrow>
               Some (map_option (bound_to s m) (start_executor b),
                     map (map_edge (bound_to s m)) (edges b))
           | _ \<Rightarrow> None))"


section \<open>Properties of the string operations\<close>

lemma replace_single:
  "replace [a] [b] s = map (\<lambda>c. if c = a then b else c) s"
  by (induction s) auto

lemma aggregate_loop_map:
  "aggregate_loop db results validations = validations @ map (format_validation db) results"
  by (induction results arbitrary: validations) auto

lemma join_append:
  "join sep (xs @ y # ys) =
     join sep xs @ (if xs = [] then [] else sep) @ y
       @ (if ys = [] then [] else sep) @ join sep ys"
proof (induction sep xs rule: join.induct)
  case (1 sep)
  then show ?case by (cases ys) auto
next
  case (2 sep x)
  then show ?case by (cases ys) auto
next
  case (3 sep x y' ys')
  then show ?case by simp
qed

lemma lit_Nil: "lit [] = []"
  by (simp add: lit_def)

lemma lit_Cons: "lit (c # cs) = of_char c # lit cs"
  by (simp add: lit_def)

lemma aggregate_eq:
  "aggregate db results ctx =
     Inr (ctx\<lparr>sent := sent ctx @
        [lit ''=== VALIDATION SUMMARY ===\<newline>\<newline>''
           @ join (lit ''\<newline>\<newline>'') (map (format_validation db) results)
           @ lit ''\<newline>\<newline>'']\<rparr>)"
  by (simp add: aggregate_def aggregate_loop_map send_message_def)

lemma sublist_join:
  "x \<in> set xs \<Longrightarrow> sublist x (join sep xs)"
proof (induction sep xs rule: join.induct)
  case (1 sep)
  then show ?case by simp
next
  case (2 sep y)
  then show ?case by simp
next
  case (3 sep y z zs)
  show ?case
  proof (cases "x = y")
    case True
    then show ?thesis by simp
  next
    case False
    with 3 have "sublist x (join sep (z # zs))" by simp
    then have "sublist x ((y @ sep) @ join sep (z # zs))"
      by (rule sublist_order.order_trans [OF _ sublist_append_leftI])
    then show ?thesis by simp
  qed
qed

section \<open>Claims about the validation aggregator\<close>

text \<open>
  C1. For every list of responses, \<open>aggregate\<close> sends exactly one message. The message
  is the header, then the entries joined by a blank line, then a blank line; the
  entry of a response is two asterisks, the executor id with every underscore
  replaced by a space and then title-cased, the text \<open>**:\<close> and a line break, and
  the response's text, unchanged. So for each response the summary contains its
  title-cased executor id followed by its text, and nothing else is computed from the
  texts.
\<close>

theorem aggregate_summary:
  "\<exists>summary.
     aggregate db results ctx = Inr (ctx\<lparr>sent := sent ctx @ [summary]\<rparr>)
     \<and> summary =
         lit ''=== VALIDATION SUMMARY ===\<newline>\<newline>''
         @ join (lit ''\<newline>\<newline>'')
             (map (\<lambda>r. lit ''**''
                        @ title db (map (\<lambda>c. if c = of_char CHR ''_'' then of_char CHR '' '' else c)
                                        (executor_id r))
                        @ lit ''**:\<newline>'' @ text (agent_run_response r))
                  results)
         @ lit ''\<newline>\<newline>''
     \<and> (\<forall>r \<in> set results.
           sublist (title db (map (\<lambda>c. if c = of_char CHR ''_'' then of_char CHR '' '' else c)
                                  (executor_id r))
                      @ lit ''**:\<newline>'' @ text (agent_run_response r))
                   summary)"
proof -
  let ?u = "\<lambda>c::nat. if c = of_char CHR ''_'' then of_char CHR '' '' else c"
  let ?e = "\<lambda>r. lit ''**'' @ title db (map ?u (executor_id r))
                  @ lit ''**:\<newline>'' @ text (agent_run_response r)"
  have u: "lit ''_'' = [of_char CHR ''_'']" "lit '' '' = [of_char CHR '' '']"
    by (simp_all only: lit_Cons lit_Nil)
  have fv: "format_validation db = ?e"
    by (rule ext) (simp only: format_validation_def Let_def u replace_single)
  let ?s = "lit ''=== VALIDATION SUMMARY ===\<newline>\<newline>''
              @ join (lit ''\<newline>\<newline>'') (map ?e results) @ lit ''\<newline>\<newline>''"
  have a: "aggregate db results ctx = Inr (ctx\<lparr>sent := sent ctx @ [?s]\<rparr>)"
    by (simp only: aggregate_eq fv)
  have c: "sublist (title db (map ?u (executor_id r)) @ lit ''**:\<newline>''
                      @ text (agent_run_response r)) ?s"
    if "r \<in> set results" for r
  proof -
    from that have "?e r \<in> set (map ?e results)" unfolding set_map by (rule imageI)
    then have "sublist (?e r) (join (lit ''\<newline>\<newline>'') (map ?e results))"
      by (rule sublist_join)
    then have "sublist (?e r) ?s"
      by (rule sublist_order.order_trans [OF _ sublist_appendI])
    moreover have "sublist (title db (map ?u (executor_id r)) @ lit ''**:\<newline>''
                      @ text (agent_run_response r)) (?e r)"
      by simp
    ultimately show ?thesis
      by (rule sublist_order.order_trans[rotated])
  qed
  from a c show ?thesis by blast
qed

text \<open>The theorem at one response, with the ASCII case tables: the entry of
  \<open>syntax_checker\<close> reads \<open>Syntax Checker\<close>.\<close>

theorem aggregate_summary_witness:
  "\<exists>summary.
     aggregate ascii_tables
       [\<lparr>executor_id = lit ''syntax_checker'',
         agent_run_response = \<lparr>text = lit ''Status: VALID''\<rparr>\<rparr>]
       \<lparr>sent = []\<rparr> = Inr \<lparr>sent = [summary]\<rparr>
     \<and> sublist (lit ''Syntax Checker**:\<newline>Status: VALID'') summary"
  using aggregate_summary [of ascii_tables
      "[\<lparr>executor_id = lit ''syntax_checker'',
         agent_run_response = \<lparr>text = lit ''Status: VALID''\<rparr>\<rparr>]" "\<lparr>sent = []\<rparr>"]
  by (simp add: title_def ascii_tables_def lit_def)







text \<open>
  C9. The loop appends one entry per response, in the order of the list: the list of
  entries is the list of responses mapped by the formatting of one entry. In the
  summary the entry of a response stands after the joined entries of the responses
  before it and before the joined entries of the responses after it.
\<close>

theorem aggregate_order:
  "aggregate_loop db results [] = map (format_validation db) results
   \<and> aggregate db (before @ r # after) ctx =
       Inr (send_message ctx
         (lit ''=== VALIDATION SUMMARY ===\<newline>\<newline>''
          @ join (lit ''\<newline>\<newline>'') (map (format_validation db) before)
          @ (if before = [] then [] else lit ''\<newline>\<newline>'')
          @ format_validation db r
          @ (if after = [] then [] else lit ''\<newline>\<newline>'')
          @ join (lit ''\<newline>\<newline>'') (map (format_validation db) after)
          @ lit ''\<newline>\<newline>''))"
  by (simp add: aggregate_loop_map aggregate_eq send_message_def join_append)

text \<open>
  C10. On the empty list \<open>aggregate\<close> still sends one message: the header line
  followed by blank lines (four line breaks in all), with no entry; it returns
  normally.
\<close>

theorem aggregate_empty:
  "aggregate db [] ctx =
     Inr (ctx\<lparr>sent := sent ctx @ [lit ''=== VALIDATION SUMMARY ===\<newline>\<newline>\<newline>\<newline>'']\<rparr>)"
  by (simp add: aggregate_eq lit_def)

section \<open>Claims about the weather tool\<close>

lemma getitem_conditions:
  assumes "0 \<le> i" "i \<le> 3"
  shows "getitem conditions i = Inr (conditions ! nat i) \<and> conditions ! nat i \<in> set conditions"
proof -
  have len: "length conditions = 4"
    by (simp add: conditions_def)
  with assms have less: "nat i < length conditions"
    by simp
  then have "conditions ! nat i \<in> set conditions"
    by (rule nth_mem)
  moreover from assms have "getitem conditions i = Inr (conditions ! nat i)"
    by (simp add: getitem_def len)
  ultimately show ?thesis by simp
qed

lemma set_concat_map_map:
  "set (concat (map (\<lambda>i. map (f i) ys) xs)) = {f i n | i n. i \<in> set xs \<and> n \<in> set ys}"
  by auto

lemma get_weather_outcomes:
  "set (get_weather location) =
     {get_weather_drawn location i n | i n. 0 \<le> i \<and> i \<le> 3 \<and> 10 \<le> n \<and> n \<le> 30}"
  by (simp only: get_weather_def randint_def set_concat_map_map set_upto atLeastAtMost_iff
        conj_assoc)

lemma get_weather_drawn_Oslo:
  "get_weather_drawn (lit ''Oslo'') 0 10 =
     Inr (lit ''The weather in '' @ lit ''Oslo'' @ lit '' is '' @ lit ''sunny''
            @ lit '' with a high of '' @ lit ''10'' @ [176] @ lit ''C.'')"
proof -
  have "getitem conditions 0 = Inr (lit ''sunny'')"
    by (simp add: getitem_def conditions_def)
  moreover have "str_int 10 = lit ''10''"
    by (simp add: str_int_def digits.simps lit_def)
  ultimately show ?thesis
    by (simp add: get_weather_drawn_def)
qed

text \<open>
  C8. For every location, \<open>get_weather\<close> has a result, and each of its possible results
  is a string, never an exception: the text \<open>The weather in\<close>, the location, \<open>is\<close>, one
  of the four conditions, \<open>with a high of\<close>, an integer between 10 and 30 in decimal,
  the degree sign and \<open>C.\<close>. In particular every index that \<open>randint(0, 3)\<close> can
  return is in bounds for the list of conditions.
\<close>

theorem get_weather_form:
  "get_weather location \<noteq> []
   \<and> (\<forall>i \<in> set (randint 0 3). \<exists>condition. getitem conditions i = Inr condition)
   \<and> (\<forall>r \<in> set (get_weather location).
         \<exists>condition n.
           condition \<in> {lit ''sunny'', lit ''cloudy'', lit ''rainy'', lit ''stormy''}
           \<and> 10 \<le> n \<and> n \<le> 30
           \<and> r = Inr (lit ''The weather in '' @ location @ lit '' is '' @ condition
                        @ lit '' with a high of '' @ str_int n @ [176] @ lit ''C.''))"
proof (intro conjI ballI)
  have "get_weather_drawn location 0 10 \<in> set (get_weather location)"
    unfolding get_weather_outcomes by force
  then show "get_weather location \<noteq> []" by auto
next
  fix i assume "i \<in> set (randint 0 3)"
  then have "0 \<le> i" "i \<le> 3" by (simp_all add: randint_def)
  then show "\<exists>condition. getitem conditions i = Inr condition"
    using getitem_conditions by blast
next
  fix r assume "r \<in> set (get_weather location)"
  then obtain i n where r: "r = get_weather_drawn location i n"
    and i: "0 \<le> i" "i \<le> 3" and n: "10 \<le> n" "n \<le> 30"
    unfolding get_weather_outcomes by blast
  from i have g: "getitem conditions i = Inr (conditions ! nat i)"
    and c: "conditions ! nat i \<in> set conditions"
    using getitem_conditions by simp_all
  from c have "conditions ! nat i \<in> {lit ''sunny'', lit ''cloudy'', lit ''rainy'', lit ''stormy''}"
    by (simp add: conditions_def)
  moreover from g r have
    "r = Inr (lit ''The weather in '' @ location @ lit '' is '' @ (conditions ! nat i)
                @ lit '' with a high of '' @ str_int n @ [176] @ lit ''C.'')"
    by (simp add: get_weather_drawn_def)
  ultimately show "\<exists>condition n.
           condition \<in> {lit ''sunny'', lit ''cloudy'', lit ''rainy'', lit ''stormy''}
           \<and> 10 \<le> n \<and> n \<le> 30
           \<and> r = Inr (lit ''The weather in '' @ location @ lit '' is '' @ condition
                        @ lit '' with a high of '' @ str_int n @ [176] @ lit ''C.'')"
    using n by blast
qed

text \<open>The theorem at the location \<open>Oslo\<close>: the result for the draws 0 and 10 is among
  the possible results and has the stated form, and the index 1 is in bounds.\<close>

theorem get_weather_form_witness:
  "Inr (lit ''The weather in '' @ lit ''Oslo'' @ lit '' is '' @ lit ''sunny''
          @ lit '' with a high of '' @ lit ''10'' @ [176] @ lit ''C.'')
     \<in> set (get_weather (lit ''Oslo''))
   \<and> (\<exists>condition n.
         condition \<in> {lit ''sunny'', lit ''cloudy'', lit ''rainy'', lit ''stormy''}
         \<and> (10::int) \<le> n \<and> n \<le> 30
         \<and> (Inr (lit ''The weather in '' @ lit ''Oslo'' @ lit '' is '' @ lit ''sunny''
                   @ lit '' with a high of '' @ lit ''10'' @ [176] @ lit ''C.'')
               :: py_error + str) =
             Inr (lit ''The weather in '' @ lit ''Oslo'' @ lit '' is '' @ condition
                    @ lit '' with a high of '' @ str_int n @ [176] @ lit ''C.''))
   \<and> 1 \<in> set (randint 0 3) \<and> (\<exists>condition. getitem conditions 1 = Inr condition)"
proof -
  have "get_weather_drawn (lit ''Oslo'') 0 10 \<in> set (get_weather (lit ''Oslo''))"
    unfolding get_weather_outcomes by force
  then have m: "Inr (lit ''The weather in '' @ lit ''Oslo'' @ lit '' is '' @ lit ''sunny''
          @ lit '' with a high of '' @ lit ''10'' @ [176] @ lit ''C.'')
     \<in> set (get_weather (lit ''Oslo''))"
    by (simp only: get_weather_drawn_Oslo)
  have i: "1 \<in> set (randint 0 3)"
    by (simp only: randint_def set_upto atLeastAtMost_iff) simp
  from get_weather_form [of "lit ''Oslo''"] m i show ?thesis by blast
qed

section \<open>Claims about the modules\<close>

text \<open>The state each file leaves behind when it is loaded into a fresh interpreter,
  and the definitions that the evaluation of a module unfolds.\<close>

lemmas py_defs =
  py_return_def py_bind_def alloc_def lookup_def var_def store_name_def assign_def emit_def
  def_function_def def_class_def new_chat_agent_def new_validation_aggregator_def
  WorkflowBuilder_def set_start_executor_def add_edge_def add_fan_out_edges_def
  add_fan_in_edges_def build_def call_main_def py_raise_def fresh_def

lemmas read_defs =
  deref_def bound_to_def declared_workflow_def agents_def chat_clients_def serve_calls_def

lemma block_append: "block (xs @ ys) = py_bind (block xs) (\<lambda>_. block ys)"
  by (induction xs) (simp_all add: py_bind_def py_return_def fun_eq_iff split: sum.splits)

lemma story_loaded:
  "block story_workflow_body fresh =
     Inr ((),
      \<lparr>heap =
              [AzureOpenAIChatClient,
               ChatAgent \<lparr>name = lit ''PlotDesigner'',
                         description = lit ''An agent that creates story plots and structures'',
                         chat_client = 0, tools = []\<rparr>,
               ChatAgent \<lparr>name = lit ''CharacterCreator'',
                         description = lit ''An agent that develops compelling characters'',
                         chat_client = 0, tools = []\<rparr>,
               ChatAgent \<lparr>name = lit ''SceneWriter'',
                         description = lit ''An agent that writes engaging story scenes'',
                         chat_client = 0, tools = []\<rparr>,
               ChatAgent \<lparr>name = lit ''StoryPolisher'',
                         description = lit ''An agent that adds final polish and improvements'',
                         chat_client = 0, tools = []\<rparr>,
               Workflow \<lparr>start_executor = Some 1, edges = [Edge 1 2, Edge 2 3, Edge 3 4]\<rparr>,
               Function ''main''],
            globals =
                 [((Story_workflow, ''chat_client''), 0),
                  ((Story_workflow, ''plot_designer''), 1),
                  ((Story_workflow, ''character_creator''), 2),
                  ((Story_workflow, ''scene_writer''), 3),
                  ((Story_workflow, ''story_polisher''), 4),
                  ((Story_workflow, ''workflow''), 5),
                  ((Story_workflow, ''main''), 6)],
            trace = []\<rparr>)"
  by (simp add: story_workflow_body_def py_defs)

lemma query_loaded:
  "block query_workflow_body fresh =
     Inr ((),
      \<lparr>heap =
              [AzureOpenAIChatClient,
               ChatAgent \<lparr>name = lit ''SchemaParser'',
                         description = lit ''Analyzes database schema structure'',
                         chat_client = 0, tools = []\<rparr>,
               ChatAgent \<lparr>name = lit ''QueryGenerator'',
                         description = lit ''Generates SQL query from schema analysis and description'',
                         chat_client = 0, tools = []\<rparr>,
               ChatAgent \<lparr>name = lit ''SyntaxChecker'',
                         description = lit ''Validates SQL syntax'',
                         chat_client = 0, tools = []\<rparr>,
               ChatAgent \<lparr>name = lit ''SchemaValidator'',
                         description = lit ''Validates query matches schema'',
                         chat_client = 0, tools = []\<rparr>,
               ChatAgent \<lparr>name = lit ''PerformanceReviewer'',
                         description = lit ''Reviews query performance'',
                         chat_client = 0, tools = []\<rparr>,
               Class ''ValidationAggregator'',
               ValidationAggregator (lit ''validation_aggregator''),
               ChatAgent \<lparr>name = lit ''QueryRefiner'',
                         description = lit ''Refines query based on validation feedback'',
                         chat_client = 0, tools = []\<rparr>,
               ChatAgent \<lparr>name = lit ''FinalSQLOutput'',
                         description = lit ''Outputs only the final clean SQL query'',
                         chat_client = 0, tools = []\<rparr>,
               Workflow \<lparr>start_executor = Some 1,
                        edges = [Edge 1 2, Fan_out_edges 2 [3, 4, 5], Fan_in_edges [3, 4, 5] 7,
                                 Edge 7 8, Edge 8 9]\<rparr>,
               Function ''main''],
            globals =
                 [((Query_workflow, ''chat_client''), 0),
                  ((Query_workflow, ''schema_parser''), 1),
                  ((Query_workflow, ''query_generator''), 2),
                  ((Query_workflow, ''syntax_checker''), 3),
                  ((Query_workflow, ''schema_validator''), 4),
                  ((Query_workflow, ''performance_reviewer''), 5),
                  ((Query_workflow, ''ValidationAggregator''), 6),
                  ((Query_workflow, ''validation_aggregator''), 7),
                  ((Query_workflow, ''query_refiner''), 8),
                  ((Query_workflow, ''documentation_generator''), 9),
                  ((Query_workflow, ''workflow''), 10),
                  ((Query_workflow, ''main''), 11)],
            trace = []\<rparr>)"
  by (simp add: query_workflow_body_def py_defs)

lemma weather_loaded:
  "block weather_agent_body fresh =
     Inr ((),
      \<lparr>heap =
              [Function ''get_weather'',
               Function ''get_time'',
               AzureOpenAIChatClient,
               ChatAgent \<lparr>name = lit ''WeatherAgent'',
                         description = lit ''A helpful agent that provides weather information and current time'',
                         chat_client = 2, tools = [0, 1]\<rparr>],
            globals =
                 [((Weather_agent, ''get_weather''), 0),
                  ((Weather_agent, ''get_time''), 1),
                  ((Weather_agent, ''agent''), 3)],
            trace = []\<rparr>)"
  by (simp add: weather_agent_body_def py_defs)

lemma init_loaded:
  "block query_init_body fresh =
     Inr ((),
      \<lparr>heap =
              [Module Query_workflow,
               AzureOpenAIChatClient,
               ChatAgent \<lparr>name = lit ''SchemaParser'',
                         description = lit ''Analyzes database schema structure'',
                         chat_client = 1, tools = []\<rparr>,
               ChatAgent \<lparr>name = lit ''QueryGenerator'',
                         description = lit ''Generates SQL query from schema analysis and description'',
                         chat_client = 1, tools = []\<rparr>,
               ChatAgent \<lparr>name = lit ''SyntaxChecker'',
                         description = lit ''Validates SQL syntax'',
                         chat_client = 1, tools = []\<rparr>,
               ChatAgent \<lparr>name = lit ''SchemaValidator'',
                         description = lit ''Validates query matches schema'',
                         chat_client = 1, tools = []\<rparr>,
               ChatAgent \<lparr>name = lit ''PerformanceReviewer'',
                         description = lit ''Reviews query performance'',
                         chat_client = 1, tools = []\<rparr>,
               Class ''ValidationAggregator'',
               ValidationAggregator (lit ''validation_aggregator''),
               ChatAgent \<lparr>name = lit ''QueryRefiner'',
                         description = lit ''Refines query based on validation feedback'',
                         chat_client = 1, tools = []\<rparr>,
               ChatAgent \<lparr>name = lit ''FinalSQLOutput'',
                         description = lit ''Outputs only the final clean SQL query'',
                         chat_client = 1, tools = []\<rparr>,
               Workflow \<lparr>start_executor = Some 2,
                        edges = [Edge 2 3, Fan_out_edges 3 [4, 5, 6], Fan_in_edges [4, 5, 6] 8,
                                 Edge 8 9, Edge 9 10]\<rparr>,
               Function ''main'',
               Names [''workflow'']],
            globals =
                 [((Query_workflow, ''chat_client''), 1),
                  ((Query_workflow, ''schema_parser''), 2),
                  ((Query_workflow, ''query_generator''), 3),
                  ((Query_workflow, ''syntax_checker''), 4),
                  ((Query_workflow, ''schema_validator''), 5),
                  ((Query_workflow, ''performance_reviewer''), 6),
                  ((Query_workflow, ''ValidationAggregator''), 7),
                  ((Query_workflow, ''validation_aggregator''), 8),
                  ((Query_workflow, ''query_refiner''), 9),
                  ((Query_workflow, ''documentation_generator''), 10),
                  ((Query_workflow, ''workflow''), 11),
                  ((Query_workflow, ''main''), 12),
                  ((Query_init, ''workflow''), 0),
                  ((Query_init, ''workflow''), 11),
                  ((Query_init, ''__all__''), 13)],
            trace = []\<rparr>)"
  by (simp add: query_init_body_def import_workflow_def query_workflow_body_def py_defs)

lemmas loaded =
  story_loaded [unfolded fresh_def] query_loaded [unfolded fresh_def]
  weather_loaded [unfolded fresh_def] init_loaded [unfolded fresh_def]

text \<open>
  C2. The workflow that \<open>query_generator_workflow/workflow.py\<close> declares: the start
  executor is \<open>schema_parser\<close>; then, in call order, an edge from \<open>schema_parser\<close> to
  \<open>query_generator\<close>, fan-out edges from \<open>query_generator\<close> to exactly
  \<open>syntax_checker\<close>, \<open>schema_validator\<close> and \<open>performance_reviewer\<close>, fan-in edges
  from those three to \<open>validation_aggregator\<close>, an edge from \<open>validation_aggregator\<close>
  to \<open>query_refiner\<close> and an edge from \<open>query_refiner\<close> to
  \<open>documentation_generator\<close>; and nothing else. Every executor is shown by the one
  name of the module bound to it.
\<close>

theorem query_topology:
  "\<exists>s. load Query_workflow = Inr s
     \<and> declared_workflow s Query_workflow =
         Some (Some [''schema_parser''],
               [Edge [''schema_parser''] [''query_generator''],
                Fan_out_edges [''query_generator'']
                  [[''syntax_checker''], [''schema_validator''], [''performance_reviewer'']],
                Fan_in_edges
                  [[''syntax_checker''], [''schema_validator''], [''performance_reviewer'']]
                  [''validation_aggregator''],
                Edge [''validation_aggregator''] [''query_refiner''],
                Edge [''query_refiner''] [''documentation_generator'']])"
  by (simp add: load_def query_loaded lookup_def read_defs)

text \<open>
  C3. The workflow that \<open>story_workflow/workflow.py\<close> declares is a chain: the module
  constructs exactly four agents, the start executor is \<open>plot_designer\<close>, and the
  edges are \<open>plot_designer\<close> to \<open>character_creator\<close> to \<open>scene_writer\<close> to
  \<open>story_polisher\<close>, with no fan-out and no fan-in declaration.
\<close>

theorem story_topology:
  "\<exists>s. load Story_workflow = Inr s
     \<and> map name (agents s) =
         [lit ''PlotDesigner'', lit ''CharacterCreator'', lit ''SceneWriter'',
          lit ''StoryPolisher'']
     \<and> declared_workflow s Story_workflow =
         Some (Some [''plot_designer''],
               [Edge [''plot_designer''] [''character_creator''],
                Edge [''character_creator''] [''scene_writer''],
                Edge [''scene_writer''] [''story_polisher'']])"
  by (simp add: load_def story_loaded lookup_def read_defs)

text \<open>
  C4. Loading any of the source files constructs exactly one chat client, constructs
  at least one agent, and every agent it constructs holds the reference of that one
  client.
\<close>

theorem shared_chat_client:
  "\<exists>s c. load f = Inr s \<and> chat_clients s = [c] \<and> agents s \<noteq> []
     \<and> set (map chat_client (agents s)) = {c}"
  by (cases f)
     (simp_all add: load_def story_loaded query_loaded init_loaded weather_loaded read_defs)

text \<open>
  C5. Run as a script, each of the two workflow modules loads, calls \<open>main\<close>, and
  \<open>main\<close> calls \<open>serve\<close> exactly once: with a list whose only element is the object
  the module's name \<open>workflow\<close> refers to (a workflow), with port 8090 and with
  \<open>auto_open\<close> true.
\<close>

theorem main_serves_workflow:
  "(\<exists>s w b. run Query_workflow = Inr s \<and> lookup s Query_workflow ''workflow'' = Some w
       \<and> deref s w = Some (Workflow b) \<and> serve_calls s = [Serve [w] 8090 True])
   \<and> (\<exists>s w b. run Story_workflow = Inr s \<and> lookup s Story_workflow ''workflow'' = Some w
       \<and> deref s w = Some (Workflow b) \<and> serve_calls s = [Serve [w] 8090 True])"
  by (simp add: run_def block_append py_defs story_main_def query_main_def loaded read_defs)







end
